theory Spec2Isabelle
  imports Complex_Main
begin

section \<open>JavaScript values\<close>

text \<open>
  The values \<^verbatim>\<open>JSON.parse\<close> produces, plus \<^verbatim>\<open>undefined\<close> (an absent body or
  property). A number is a rational: the idealisation of the IEEE double the program
  computes with. A string is a list of 8-bit code units. An object is the list of its
  own properties, each key once.
\<close>

datatype jsval =
    JUndefined
  | JNull
  | JBool bool
  | JNum rat
  | JStr string
  | JArr "jsval list"
  | JObj "(string \<times> jsval) list"

text \<open>
  The request body of a render: per the data model, a flat mapping from key to scalar.
  The list holds the own properties of the parsed object.
\<close>

datatype scalar = SNull | SBool bool | SNum rat | SStr string

type_synonym data = "(string \<times> scalar) list"

text \<open>
  \<^verbatim>\<open>data[key]\<close> is a property read of a plain object: an own property wins, then the
  read continues along the prototype chain, which for an object made by
  \<^verbatim>\<open>JSON.parse\<close> is \<^verbatim>\<open>Object.prototype\<close>. Its members whose names are word
  characters are tabulated with the string form Node gives them (the replacement a
  replacer function returns is converted to a string).
\<close>

definition native_function :: "string \<Rightarrow> string" where
  "native_function name = ''function '' @ name @ ''() { [native code] }''"

definition Object_prototype :: "(string \<times> string) list" where
  "Object_prototype =
     [(''constructor'', native_function ''Object''),
      (''toString'', native_function ''toString''),
      (''toLocaleString'', native_function ''toLocaleString''),
      (''valueOf'', native_function ''valueOf''),
      (''hasOwnProperty'', native_function ''hasOwnProperty''),
      (''isPrototypeOf'', native_function ''isPrototypeOf''),
      (''propertyIsEnumerable'', native_function ''propertyIsEnumerable''),
      (''__defineGetter__'', native_function ''__defineGetter__''),
      (''__defineSetter__'', native_function ''__defineSetter__''),
      (''__lookupGetter__'', native_function ''__lookupGetter__''),
      (''__lookupSetter__'', native_function ''__lookupSetter__''),
      (''__proto__'', ''[object Object]'')]"

datatype property = Absent | Own scalar | Inherited string

definition get_property :: "data \<Rightarrow> string \<Rightarrow> property" where
  "get_property d key =
     (case map_of d key of
        Some v \<Rightarrow> Own v
      | None \<Rightarrow> (case map_of Object_prototype key of
                   Some s \<Rightarrow> Inherited s
                 | None \<Rightarrow> Absent))"

text \<open>
  The string form of a scalar. \<open>nts\<close> is the runtime's \<^verbatim>\<open>Number.prototype.toString\<close>,
  taken as a parameter.
\<close>

fun scalar_toString :: "(rat \<Rightarrow> string) \<Rightarrow> scalar \<Rightarrow> string" where
  "scalar_toString nts SNull = ''null''"
| "scalar_toString nts (SBool b) = (if b then ''true'' else ''false'')"
| "scalar_toString nts (SNum n) = nts n"
| "scalar_toString nts (SStr s) = s"

section \<open>Placeholder resolver\<close>

text \<open>
  \<^verbatim>\<open>/\{\{\s*(\w+)\s*\}\}/g\<close>. \<open>\s\<close> on 8-bit code units: tab, line feed, vertical tab,
  form feed, carriage return, space and no-break space. \<open>\w\<close> is \<open>[A-Za-z0-9_]\<close>.
\<close>

definition is_space :: "char \<Rightarrow> bool" where
  "is_space c = ((of_char c :: nat) \<in> {9, 10, 11, 12, 13, 32, 160})"

definition is_word :: "char \<Rightarrow> bool" where
  "is_word c =
     (let n = (of_char c :: nat)
      in (65 \<le> n \<and> n \<le> 90) \<or> (97 \<le> n \<and> n \<le> 122) \<or> (48 \<le> n \<and> n \<le> 57) \<or> n = 95)"

text \<open>
  One attempt of the pattern at the head of the input: the captured key and the input
  after the match. The two classes are disjoint from each other and from the braces, so
  the greedy choice is the only one and no backtracking is lost.
\<close>

fun match_token :: "string \<Rightarrow> (string \<times> string) option" where
  "match_token (c1 # c2 # t) =
     (if c1 = CHR ''{'' \<and> c2 = CHR ''{'' then
        (let t1 = dropWhile is_space t;
             key = takeWhile is_word t1;
             t3 = dropWhile is_space (dropWhile is_word t1)
         in if key = [] then None
            else (case t3 of
                    d1 # d2 # rest \<Rightarrow>
                      if d1 = CHR ''}'' \<and> d2 = CHR ''}'' then Some (key, rest) else None
                  | _ \<Rightarrow> None))
      else None)"
| "match_token _ = None"

lemma match_token_shorter:
  assumes "match_token s = Some (key, rest)"
  shows "length rest < length s"
proof (cases s)
  case Nil
  with assms show ?thesis by simp
next
  case (Cons c1 s1)
  show ?thesis
  proof (cases s1)
    case Nil
    with Cons assms show ?thesis by simp
  next
    case (Cons c2 t)
    let ?t3 = "dropWhile is_space (dropWhile is_word (dropWhile is_space t))"
    have len: "length ?t3 \<le> length t"
      by (meson length_dropWhile_le order_trans)
    from assms \<open>s = c1 # s1\<close> Cons obtain d1 d2 where "?t3 = d1 # d2 # rest"
      by (auto simp: Let_def split: if_splits list.splits)
    with len have "length rest < length t" by simp
    with \<open>s = c1 # s1\<close> Cons show ?thesis by simp
  qed
qed

text \<open>
  \<^verbatim>\<open>String.prototype.replace\<close> with the global flag and a replacer function: matches are
  found left to right, the scan resumes after each match, and the replacement text is
  not scanned again.
\<close>

function replace_tokens :: "(string \<Rightarrow> string) \<Rightarrow> string \<Rightarrow> string" where
  "replace_tokens f [] = []"
| "replace_tokens f (c # cs) =
     (case match_token (c # cs) of
        Some (key, rest) \<Rightarrow> f key @ replace_tokens f rest
      | None \<Rightarrow> c # replace_tokens f cs)"
  by pat_completeness auto
termination
  by (relation "measure (\<lambda>(f, s). length s)") (auto dest: match_token_shorter)

text \<open>The replacer: \<^verbatim>\<open>(_, key) => data[key] ?? ""\<close>, converted to a string.\<close>

definition replacer :: "(rat \<Rightarrow> string) \<Rightarrow> data \<Rightarrow> string \<Rightarrow> string" where
  "replacer nts d key =
     (case get_property d key of
        Absent \<Rightarrow> ''''
      | Own SNull \<Rightarrow> ''''
      | Own v \<Rightarrow> scalar_toString nts v
      | Inherited s \<Rightarrow> s)"

definition resolveString :: "(rat \<Rightarrow> string) \<Rightarrow> string \<Rightarrow> data \<Rightarrow> string" where
  "resolveString nts s d = replace_tokens (replacer nts d) s"

fun resolvePlaceholders :: "(rat \<Rightarrow> string) \<Rightarrow> jsval \<Rightarrow> data \<Rightarrow> jsval" where
  "resolvePlaceholders nts (JStr s) d = JStr (resolveString nts s d)"
| "resolvePlaceholders nts v d = v"

section \<open>Template model\<close>

text \<open>
  A template and its elements as the loaded JSON object has them: every field may be
  absent (\<open>None\<close> stands for a missing or \<^verbatim>\<open>null\<close> property), geometry fields are
  numbers and the others strings, as the data model types them.
\<close>

record border =
  b_width :: "rat option"
  b_color :: "string option"

record element =
  el_type :: "string option"
  el_name :: "string option"
  el_x :: "rat option"
  el_y :: "rat option"
  el_width :: "rat option"
  el_height :: "rat option"
  el_source :: "string option"
  el_clip :: "string option"
  el_border :: "border option"
  el_radius :: "rat option"
  el_color :: "string option"
  el_text :: "string option"
  el_fontSize :: "rat option"
  el_align :: "string option"
  el_font :: "string option"

record template =
  background :: "string option"
  elements :: "element list"

text \<open>\<^verbatim>\<open>v ?? d\<close> and, on strings, \<^verbatim>\<open>v || d\<close> (the empty string is falsy).\<close>

definition nullish :: "'a option \<Rightarrow> 'a \<Rightarrow> 'a" where
  "nullish v d = (case v of None \<Rightarrow> d | Some a \<Rightarrow> a)"

definition str_or :: "string option \<Rightarrow> string \<Rightarrow> string" where
  "str_or v d = (case v of None \<Rightarrow> d | Some s \<Rightarrow> if s = [] then d else s)"

section \<open>Collaborators: images, canvas, file system, network\<close>

datatype pixels = Decoded string | Filled string

record image =
  img_width :: nat
  img_height :: nat
  img_pixels :: pixels

text \<open>
  The 2D context is written to and never read, so it is the sequence of calls made on
  it. \<open>Arc cx cy r\<close> is \<^verbatim>\<open>arc(cx, cy, r, 0, Math.PI * 2)\<close>.
\<close>

datatype canvas_op =
    BeginPath
  | MoveTo rat rat
  | LineTo rat rat
  | QuadraticCurveTo rat rat rat rat
  | ClosePath
  | Arc rat rat rat
  | SetFillStyle string
  | Fill
  | Save
  | Restore
  | Clip
  | DrawImage image rat rat rat rat
  | SetFont string
  | SetTextAlign string
  | FillText string rat rat

record surface =
  sf_width :: nat
  sf_height :: nat
  sf_ops :: "canvas_op list"

text \<open>
  An exception: the one the renderer throws itself,
  \<^verbatim>\<open>new Error(`Failed to fetch image (${name}): ${resp.status}`)\<close>, or one raised by a
  collaborator (\<^verbatim>\<open>loadImage\<close>, \<^verbatim>\<open>fetch\<close>, \<^verbatim>\<open>arrayBuffer\<close>) with its message.
\<close>

datatype error =
    Failed_to_fetch_image string nat
  | Raised string

record response =
  resp_ok :: bool
  resp_status :: nat
  resp_arrayBuffer :: "error + string"

text \<open>
  The environment of one render. \<open>app_path p\<close> is \<^verbatim>\<open>path.join(root, p)\<close> for the
  deployment's root (\<^verbatim>\<open>process.cwd()\<close> in server.js, \<^verbatim>\<open>__dirname/..\<close> in
  api/render.js); \<open>fallbackBg\<close> is \<^verbatim>\<open>path.join(assetsDir, "background.png")\<close>.
\<close>

record env =
  loadImage :: "string \<Rightarrow> error + image"
  loadImageBuffer :: "string \<Rightarrow> error + image"
  fetch :: "string \<Rightarrow> error + response"
  app_path :: "string \<Rightarrow> string"
  fallbackBg :: string
  Number_toString :: "rat \<Rightarrow> string"
  writeFile_ok :: "surface \<Rightarrow> bool"

definition isAbsolute :: "string \<Rightarrow> bool" where
  "isAbsolute p = (case p of [] \<Rightarrow> False | c # _ \<Rightarrow> c = CHR ''/'')"

definition resolve_local :: "env \<Rightarrow> string \<Rightarrow> string" where
  "resolve_local e p = (if isAbsolute p then p else app_path e p)"

definition startsWith :: "string \<Rightarrow> string \<Rightarrow> bool" where
  "startsWith s pre = (take (length pre) s = pre)"

section \<open>Geometry kernel\<close>

definition effective_radius :: "rat \<Rightarrow> rat \<Rightarrow> rat \<Rightarrow> rat" where
  "effective_radius width height radius = max 0 (min radius (min width height / 2))"

definition drawRoundedRect :: "rat \<Rightarrow> rat \<Rightarrow> rat \<Rightarrow> rat \<Rightarrow> rat \<Rightarrow> canvas_op list" where
  "drawRoundedRect x y width height radius =
     (let r = effective_radius width height radius
      in [BeginPath,
          MoveTo (x + r) y,
          LineTo (x + width - r) y,
          QuadraticCurveTo (x + width) y (x + width) (y + r),
          LineTo (x + width) (y + height - r),
          QuadraticCurveTo (x + width) (y + height) (x + width - r) (y + height),
          LineTo (x + r) (y + height),
          QuadraticCurveTo x (y + height) x (y + height - r),
          LineTo x (y + r),
          QuadraticCurveTo x y (x + r) y,
          ClosePath])"

section \<open>Compositor\<close>

definition or_else :: "string \<Rightarrow> string \<Rightarrow> string" where
  "or_else s d = (if s = [] then d else s)"

definition brand_font :: string where
  "brand_font = ''DB-Adman-X''"

text \<open>\<^verbatim>\<open>toLowerCase\<close> on 8-bit code units (ASCII and Latin-1 capitals).\<close>

definition to_lower :: "char \<Rightarrow> char" where
  "to_lower c =
     (let n = (of_char c :: nat)
      in if (65 \<le> n \<and> n \<le> 90) \<or> (192 \<le> n \<and> n \<le> 222 \<and> n \<noteq> 215)
         then char_of (n + 32) else c)"

definition toLowerCase :: "string \<Rightarrow> string" where
  "toLowerCase s = map to_lower s"

text \<open>
  Image acquisition of the element loop: a source starting with \<^verbatim>\<open>http://\<close> or
  \<^verbatim>\<open>https://\<close> is fetched and decoded from the response body, any other is loaded
  from the local path.
\<close>

definition acquire :: "env \<Rightarrow> string \<Rightarrow> string \<Rightarrow> error + image" where
  "acquire e name source =
     (if startsWith source ''http://'' \<or> startsWith source ''https://'' then
        (case fetch e source of
           Inl err \<Rightarrow> Inl err
         | Inr resp \<Rightarrow>
             if \<not> resp_ok resp then Inl (Failed_to_fetch_image name (resp_status resp))
             else (case resp_arrayBuffer resp of
                     Inl err \<Rightarrow> Inl err
                   | Inr buf \<Rightarrow> loadImageBuffer e buf))
      else loadImage e (resolve_local e source))"

text \<open>\<^verbatim>\<open>border && border.width && border.color\<close>: the width and colour of a truthy border.\<close>

definition ring_of :: "border option \<Rightarrow> (rat \<times> string) option" where
  "ring_of b =
     (case b of
        None \<Rightarrow> None
      | Some bd \<Rightarrow>
          (case b_width bd of
             None \<Rightarrow> None
           | Some bw \<Rightarrow>
               if bw = 0 then None
               else (case b_color bd of
                       None \<Rightarrow> None
                     | Some c \<Rightarrow> if c = [] then None else Some (bw, c))))"

definition image_name :: "element \<Rightarrow> string" where
  "image_name el = str_or (el_name el) ''image''"

definition image_source :: "env \<Rightarrow> data \<Rightarrow> element \<Rightarrow> string" where
  "image_source e d el = resolveString (Number_toString e) (nullish (el_source el) []) d"

definition ring_ops :: "env \<Rightarrow> data \<Rightarrow> element \<Rightarrow> canvas_op list" where
  "ring_ops e d el =
     (let x = nullish (el_x el) 0; y = nullish (el_y el) 0;
          w = nullish (el_width el) 0; h = nullish (el_height el) 0
      in if el_clip el = Some ''circle'' then
           (case ring_of (el_border el) of
              None \<Rightarrow> []
            | Some (bw, c) \<Rightarrow>
                [BeginPath,
                 Arc (x + w / 2) (y + h / 2) (min w h / 2 + bw / 2),
                 SetFillStyle (or_else (resolveString (Number_toString e) c d) ''#000000''),
                 Fill])
         else [])"

definition clip_ops :: "element \<Rightarrow> canvas_op list" where
  "clip_ops el =
     (let x = nullish (el_x el) 0; y = nullish (el_y el) 0;
          w = nullish (el_width el) 0; h = nullish (el_height el) 0
      in if el_clip el = Some ''circle'' then
           [BeginPath, Arc (x + w / 2) (y + h / 2) (min w h / 2), ClosePath, Clip]
         else [])"

definition paint_image :: "env \<Rightarrow> data \<Rightarrow> element \<Rightarrow> error + canvas_op list" where
  "paint_image e d el =
     (let x = nullish (el_x el) 0; y = nullish (el_y el) 0;
          w = nullish (el_width el) 0; h = nullish (el_height el) 0
      in case acquire e (image_name el) (image_source e d el) of
           Inl err \<Rightarrow> Inl err
         | Inr imageObj \<Rightarrow>
             Inr (ring_ops e d el @ [Save] @ clip_ops el @ [DrawImage imageObj x y w h, Restore]))"

definition paint_rectangle :: "env \<Rightarrow> data \<Rightarrow> element \<Rightarrow> canvas_op list" where
  "paint_rectangle e d el =
     (let x = nullish (el_x el) 0; y = nullish (el_y el) 0;
          w = nullish (el_width el) 0; h = nullish (el_height el) 0;
          radius = nullish (el_radius el) 0;
          color = resolveString (Number_toString e) (nullish (el_color el) ''#000000'') d
      in drawRoundedRect x y w h radius @ [SetFillStyle color, Fill])"

definition text_fontFamily :: "env \<Rightarrow> data \<Rightarrow> element \<Rightarrow> string" where
  "text_fontFamily e d el =
     (let fontFamilyRaw = str_or (el_font el) brand_font
      in or_else (resolveString (Number_toString e) fontFamilyRaw d) brand_font)"

definition paint_text :: "env \<Rightarrow> data \<Rightarrow> element \<Rightarrow> canvas_op list" where
  "paint_text e d el =
     (let x = nullish (el_x el) 0; y = nullish (el_y el) 0;
          fontSize = nullish (el_fontSize el) 24;
          color = resolveString (Number_toString e) (nullish (el_color el) ''#000000'') d;
          text = resolveString (Number_toString e) (nullish (el_text el) []) d;
          align = toLowerCase (str_or (el_align el) ''left'');
          fontFamily = text_fontFamily e d el
      in [SetFont (Number_toString e fontSize @ ''px '' @ fontFamily),
          SetFillStyle color,
          SetTextAlign (if align \<in> set [''left'', ''right'', ''center''] then align else ''left''),
          FillText text x y])"

text \<open>The body of the element loop: the calls one element makes on the context.\<close>

definition paint_element :: "env \<Rightarrow> data \<Rightarrow> element \<Rightarrow> error + canvas_op list" where
  "paint_element e d el =
     (if el_type el = Some ''image'' then paint_image e d el
      else if el_type el = Some ''rectangle'' then Inr (paint_rectangle e d el)
      else if el_type el = Some ''text'' then Inr (paint_text e d el)
      else Inr [])"

fun paint_elements :: "env \<Rightarrow> data \<Rightarrow> element list \<Rightarrow> canvas_op list \<Rightarrow> error + canvas_op list" where
  "paint_elements e d [] ops = Inr ops"
| "paint_elements e d (el # els) ops =
     (case paint_element e d el of
        Inl err \<Rightarrow> Inl err
      | Inr new \<Rightarrow> paint_elements e d els (ops @ new))"

text \<open>\<^verbatim>\<open>bgImage.width || 1080\<close>.\<close>

definition surface_dim :: "nat \<Rightarrow> nat" where
  "surface_dim n = (if n = 0 then 1080 else n)"

text \<open>Surface sizing, background paint and element pass, shared by both entry points.\<close>

definition compose :: "env \<Rightarrow> element list \<Rightarrow> data \<Rightarrow> image \<Rightarrow> error + surface" where
  "compose e els d bgImage =
     (let width = surface_dim (img_width bgImage);
          height = surface_dim (img_height bgImage)
      in case paint_elements e d els [DrawImage bgImage 0 0 (of_nat width) (of_nat height)] of
           Inl err \<Rightarrow> Inl err
         | Inr ops \<Rightarrow> Inr \<lparr>sf_width = width, sf_height = height, sf_ops = ops\<rparr>)"

text \<open>
  Background, first tier: the template's path, when the template has a truthy one; a
  failed load is caught and leaves \<^verbatim>\<open>bgImage\<close> null.
\<close>

definition template_background :: "env \<Rightarrow> template option \<Rightarrow> data \<Rightarrow> image option" where
  "template_background e tdef d =
     (case tdef of
        None \<Rightarrow> None
      | Some t \<Rightarrow>
          (case background t of
             None \<Rightarrow> None
           | Some b \<Rightarrow>
               if b = [] then None
               else (case loadImage e (resolve_local e (resolveString (Number_toString e) b d)) of
                       Inl err \<Rightarrow> None
                     | Inr img \<Rightarrow> Some img)))"

definition template_elements :: "template option \<Rightarrow> element list" where
  "template_elements tdef = (case tdef of None \<Rightarrow> [] | Some t \<Rightarrow> elements t)"

datatype http_result =
    Json_url surface
  | Json_image surface
  | Http_error nat string

subsection \<open>server.js: POST /render\<close>

definition post_render_background :: "env \<Rightarrow> template option \<Rightarrow> data \<Rightarrow> error + image" where
  "post_render_background e tdef d =
     (case template_background e tdef d of
        Some img \<Rightarrow> Inr img
      | None \<Rightarrow> loadImage e (fallbackBg e))"

definition post_render_try :: "env \<Rightarrow> template option \<Rightarrow> data \<Rightarrow> error + surface" where
  "post_render_try e tdef d =
     (case post_render_background e tdef d of
        Inl err \<Rightarrow> Inl err
      | Inr bgImage \<Rightarrow> compose e (template_elements tdef) d bgImage)"

definition post_render :: "env \<Rightarrow> template option \<Rightarrow> data \<Rightarrow> http_result" where
  "post_render e tdef d =
     (case post_render_try e tdef d of
        Inl err \<Rightarrow> Http_error 500 ''Image generation failed''
      | Inr s \<Rightarrow> if writeFile_ok e s then Json_url s else Http_error 500 ''Failed to save image'')"

subsection \<open>api/render.js: handler (POST)\<close>

definition default_canvas :: image where
  "default_canvas = \<lparr>img_width = 1080, img_height = 1080, img_pixels = Filled ''#ffffff''\<rparr>"

definition handler_background :: "env \<Rightarrow> template option \<Rightarrow> data \<Rightarrow> image" where
  "handler_background e tdef d =
     (case template_background e tdef d of
        Some img \<Rightarrow> img
      | None \<Rightarrow>
          (case loadImage e (fallbackBg e) of
             Inr img \<Rightarrow> img
           | Inl bgErr \<Rightarrow> default_canvas))"

definition handler_try :: "env \<Rightarrow> template option \<Rightarrow> data \<Rightarrow> error + surface" where
  "handler_try e tdef d = compose e (template_elements tdef) d (handler_background e tdef d)"

definition handler :: "env \<Rightarrow> template option \<Rightarrow> data \<Rightarrow> http_result" where
  "handler e tdef d =
     (case tdef of
        None \<Rightarrow> Http_error 500 ''Template not loaded''
      | Some t \<Rightarrow>
          (case handler_try e tdef d of
             Inl err \<Rightarrow> Http_error 500 ''Image generation failed''
           | Inr s \<Rightarrow> Json_image s))"

section \<open>Template storage: PUT /api/template\<close>

text \<open>Truthiness, \<^verbatim>\<open>newTemplate.elements\<close> and \<^verbatim>\<open>Array.isArray\<close> on parsed JSON.\<close>

fun truthy :: "jsval \<Rightarrow> bool" where
  "truthy JUndefined = False"
| "truthy JNull = False"
| "truthy (JBool b) = b"
| "truthy (JNum n) = (n \<noteq> 0)"
| "truthy (JStr s) = (s \<noteq> [])"
| "truthy (JArr xs) = True"
| "truthy (JObj kvs) = True"

fun get_elements :: "jsval \<Rightarrow> jsval" where
  "get_elements (JObj kvs) = (case map_of kvs ''elements'' of None \<Rightarrow> JUndefined | Some v \<Rightarrow> v)"
| "get_elements v = JUndefined"

fun isArray :: "jsval \<Rightarrow> bool" where
  "isArray (JArr xs) = True"
| "isArray v = False"

datatype put_response = Put_success | Put_error nat string

text \<open>
  The handler of both deployments (server.js and api/template.js have the same body):
  the response and the in-memory template afterwards. \<open>write_ok\<close> tells whether
  \<^verbatim>\<open>fs.writeFile\<close> succeeds.
\<close>

definition put_template :: "bool \<Rightarrow> jsval \<Rightarrow> jsval \<Rightarrow> put_response \<times> jsval" where
  "put_template write_ok newTemplate templateDefinition =
     (if \<not> truthy newTemplate \<or> \<not> truthy (get_elements newTemplate)
         \<or> \<not> isArray (get_elements newTemplate)
      then (Put_error 400 ''Invalid template format'', templateDefinition)
      else if \<not> write_ok then (Put_error 500 ''Failed to update template'', templateDefinition)
      else (Put_success, newTemplate))"

section \<open>Reading a pixel off the calls\<close>

text \<open>
  The canvas library is not part of the repository. For a fixed point, what its
  source-over compositing leaves there is followed through the calls: a fill of an
  opaque colour, outside any clip, whose path contains the point sets it to that colour;
  an image, a text, a fill under a clip or in a style that is not a known opaque colour
  leave it \<open>Unknown\<close>. The rasteriser's point-in-path test and the colour parser's
  verdict are parameters. The current path is the calls since the last
  \<^verbatim>\<open>beginPath\<close>, that call included.
\<close>

datatype pixel = Unknown | Colour string

record raster =
  inside :: "canvas_op list \<Rightarrow> rat \<times> rat \<Rightarrow> bool"
  opaque :: "string \<Rightarrow> bool"

record paint_state =
  ps_path :: "canvas_op list"
  ps_style :: pixel
  ps_clipped :: bool
  ps_saved :: "(pixel \<times> bool) list"
  ps_pixel :: pixel

fun paint_step :: "raster \<Rightarrow> rat \<times> rat \<Rightarrow> paint_state \<Rightarrow> canvas_op \<Rightarrow> paint_state" where
  "paint_step R p s BeginPath = s\<lparr>ps_path := [BeginPath]\<rparr>"
| "paint_step R p s (SetFillStyle c) =
     s\<lparr>ps_style := (if opaque R c then Colour c else Unknown)\<rparr>"
| "paint_step R p s Fill =
     (if inside R (ps_path s) p
      then s\<lparr>ps_pixel := (if ps_clipped s then Unknown else ps_style s)\<rparr>
      else s)"
| "paint_step R p s Save = s\<lparr>ps_saved := (ps_style s, ps_clipped s) # ps_saved s\<rparr>"
| "paint_step R p s Restore =
     (case ps_saved s of
        [] \<Rightarrow> s
      | (st, cl) # rest \<Rightarrow> s\<lparr>ps_style := st, ps_clipped := cl, ps_saved := rest\<rparr>)"
| "paint_step R p s Clip = s\<lparr>ps_clipped := True\<rparr>"
| "paint_step R p s (DrawImage img x y w h) = s\<lparr>ps_pixel := Unknown\<rparr>"
| "paint_step R p s (FillText t x y) = s\<lparr>ps_pixel := Unknown\<rparr>"
| "paint_step R p s (SetFont f) = s"
| "paint_step R p s (SetTextAlign a) = s"
| "paint_step R p s seg = s\<lparr>ps_path := ps_path s @ [seg]\<rparr>"

definition fresh_context :: paint_state where
  "fresh_context =
     \<lparr>ps_path = [], ps_style = Colour ''#000000'', ps_clipped = False, ps_saved = [],
      ps_pixel = Unknown\<rparr>"

definition pixel_at :: "raster \<Rightarrow> canvas_op list \<Rightarrow> rat \<times> rat \<Rightarrow> pixel" where
  "pixel_at R ops p = ps_pixel (foldl (paint_step R p) fresh_context ops)"

section \<open>Words of the specification\<close>

text \<open>
  The clamp of a value to an interval, and the closed path of four edges joined by
  corners of a given radius, as the geometry kernel is described.
\<close>

definition clamp :: "rat \<Rightarrow> rat \<Rightarrow> rat \<Rightarrow> rat" where
  "clamp lo hi v = (if v < lo then lo else if hi < v then hi else v)"

definition corner_path :: "rat \<Rightarrow> rat \<Rightarrow> rat \<Rightarrow> rat \<Rightarrow> rat \<Rightarrow> canvas_op list" where
  "corner_path x y w h r =
     [BeginPath,
      MoveTo (x + r) y,
      LineTo (x + w - r) y,
      QuadraticCurveTo (x + w) y (x + w) (y + r),
      LineTo (x + w) (y + h - r),
      QuadraticCurveTo (x + w) (y + h) (x + w - r) (y + h),
      LineTo (x + r) (y + h),
      QuadraticCurveTo x (y + h) x (y + h - r),
      LineTo x (y + r),
      QuadraticCurveTo x y (x + r) y,
      ClosePath]"

definition plain_rectangle :: "rat \<Rightarrow> rat \<Rightarrow> rat \<Rightarrow> rat \<Rightarrow> canvas_op list" where
  "plain_rectangle x y w h =
     [BeginPath,
      MoveTo x y,
      LineTo (x + w) y,
      QuadraticCurveTo (x + w) y (x + w) y,
      LineTo (x + w) (y + h),
      QuadraticCurveTo (x + w) (y + h) (x + w) (y + h),
      LineTo x (y + h),
      QuadraticCurveTo x (y + h) x (y + h),
      LineTo x y,
      QuadraticCurveTo x y x y,
      ClosePath]"

text \<open>
  The surface of a given size that holds the background, stretched over all of it, and
  nothing else.
\<close>

definition background_alone :: "image \<Rightarrow> nat \<Rightarrow> nat \<Rightarrow> surface" where
  "background_alone bg w h =
     \<lparr>sf_width = w, sf_height = h, sf_ops = [DrawImage bg 0 0 (of_nat w) (of_nat h)]\<rparr>"

section \<open>Sample inputs\<close>

text \<open>
  An element with no field set, and an environment in which every load and fetch fails
  (no file on disk, no network). Its number printer is right on the integers, which
  print in decimal with their sign; it is applied to integers only.
\<close>

function decimal :: "nat \<Rightarrow> string" where
  "decimal n =
     (if n < 10 then [''0123456789'' ! n]
      else decimal (n div 10) @ [''0123456789'' ! (n mod 10)])"
  by pat_completeness auto
termination
  by (relation "measure id") auto

declare decimal.simps [simp del]

definition print_int :: "rat \<Rightarrow> string" where
  "print_int q =
     (if q < 0 then CHR ''-'' # decimal (nat (- \<lfloor>q\<rfloor>)) else decimal (nat \<lfloor>q\<rfloor>))"

definition blank_element :: element where
  "blank_element =
     \<lparr>el_type = None, el_name = None, el_x = None, el_y = None, el_width = None,
      el_height = None, el_source = None, el_clip = None, el_border = None,
      el_radius = None, el_color = None, el_text = None, el_fontSize = None,
      el_align = None, el_font = None\<rparr>"

definition offline_env :: env where
  "offline_env =
     \<lparr>loadImage = (\<lambda>p. Inl (Raised ''ENOENT'')),
      loadImageBuffer = (\<lambda>b. Inl (Raised ''Unsupported image type'')),
      fetch = (\<lambda>u. Inl (Raised ''ECONNREFUSED'')),
      app_path = (\<lambda>p. ''/app/'' @ p),
      fallbackBg = ''/app/assets/background.png'',
      Number_toString = print_int,
      writeFile_ok = (\<lambda>s. True)\<rparr>"

text \<open>
  A decoded image, an environment where every local path loads it, and one where only
  the fallback background exists on disk.
\<close>

definition sample_image :: image where
  "sample_image = \<lparr>img_width = 800, img_height = 600, img_pixels = Decoded ''png''\<rparr>"

definition disk_env :: env where
  "disk_env = offline_env\<lparr>loadImage := (\<lambda>p. Inr sample_image)\<rparr>"

definition assets_env :: env where
  "assets_env =
     offline_env\<lparr>loadImage :=
       (\<lambda>p. if p = ''/app/assets/background.png'' then Inr sample_image
            else Inl (Raised ''ENOENT''))\<rparr>"

text \<open>A framed portrait: a circle-clipped image element with a ring border, and its data.\<close>

definition portrait :: element where
  "portrait =
     blank_element\<lparr>el_type := Some ''image'', el_name := Some ''avatar'',
       el_x := Some 10, el_y := Some 20, el_width := Some 100, el_height := Some 80,
       el_source := Some ''photos/{{id}}.png'', el_clip := Some ''circle'',
       el_border := Some \<lparr>b_width = Some 10, b_color = Some ''{{ring}}''\<rparr>\<rparr>"

definition portrait_data :: data where
  "portrait_data = [(''id'', SStr ''7''), (''ring'', SStr ''#FFD700'')]"

text \<open>
  Image elements read from a local path that does not exist and from a URL, and an
  environment whose server answers 404.
\<close>

definition local_photo :: "string \<Rightarrow> element" where
  "local_photo name =
     blank_element\<lparr>el_type := Some ''image'', el_name := Some name,
       el_source := Some ''missing.png''\<rparr>"

definition remote_photo :: element where
  "remote_photo =
     blank_element\<lparr>el_type := Some ''image'', el_name := Some ''avatar'',
       el_source := Some ''https://cdn.example/{{id}}.png''\<rparr>"

definition not_found_env :: env where
  "not_found_env =
     assets_env\<lparr>fetch :=
       (\<lambda>u. Inr \<lparr>resp_ok = False, resp_status = 404, resp_arrayBuffer = Inr []\<rparr>)\<rparr>"

text \<open>
  A rectangle element with every geometry field and a literal colour, and a rasteriser
  that takes a point to lie in a path when it lies in the bounding box of the path's
  end points, and a colour to be opaque when it is \<open>#\<close> and six more characters.
\<close>

definition solid_rect :: "rat \<Rightarrow> rat \<Rightarrow> rat \<Rightarrow> rat \<Rightarrow> rat \<Rightarrow> string \<Rightarrow> element" where
  "solid_rect x y w h radius colour =
     blank_element\<lparr>el_type := Some ''rectangle'', el_x := Some x, el_y := Some y,
       el_width := Some w, el_height := Some h, el_radius := Some radius,
       el_color := Some colour\<rparr>"

fun seg_point :: "canvas_op \<Rightarrow> (rat \<times> rat) list" where
  "seg_point (MoveTo x y) = [(x, y)]"
| "seg_point (LineTo x y) = [(x, y)]"
| "seg_point (QuadraticCurveTo cx cy x y) = [(x, y)]"
| "seg_point seg = []"

definition box_inside :: "canvas_op list \<Rightarrow> rat \<times> rat \<Rightarrow> bool" where
  "box_inside path p =
     (let pts = concat (map seg_point path)
      in list_ex (\<lambda>q. fst q \<le> fst p) pts \<and> list_ex (\<lambda>q. fst p \<le> fst q) pts
         \<and> list_ex (\<lambda>q. snd q \<le> snd p) pts \<and> list_ex (\<lambda>q. snd p \<le> snd q) pts)"

definition box_raster :: raster where
  "box_raster = \<lparr>inside = box_inside, opaque = (\<lambda>c. length c = 7 \<and> take 1 c = ''#'')\<rparr>"

section \<open>Rounded rectangles\<close>

lemma effective_radius_nonneg: "0 \<le> effective_radius w h radius"
  by (simp add: effective_radius_def)

lemma effective_radius_clamp:
  "0 \<le> min w h / 2 \<Longrightarrow> effective_radius w h radius = clamp 0 (min w h / 2) radius"
  by (auto simp: effective_radius_def clamp_def min_def max_def)

lemma effective_radius_above:
  "min w h / 2 < radius \<Longrightarrow> effective_radius w h radius = effective_radius w h (min w h / 2)"
  by (simp add: effective_radius_def)

lemma effective_radius_below: "radius \<le> 0 \<Longrightarrow> effective_radius w h radius = 0"
  by (auto simp: effective_radius_def min_def max_def)

lemma drawRoundedRect_corner_path:
  "drawRoundedRect x y w h radius = corner_path x y w h (effective_radius w h radius)"
  by (simp add: drawRoundedRect_def corner_path_def Let_def)

lemma corner_path_zero: "corner_path x y w h 0 = plain_rectangle x y w h"
  by (simp add: corner_path_def plain_rectangle_def)

text \<open>
  C5. The radius \<open>drawRoundedRect\<close> builds its path with is never negative; for a box
  with non-negative sides it is the requested radius clamped to the interval from 0 to
  half the shorter side; a radius above half the shorter side gives the same path as
  that maximal radius; and a radius of 0 or less gives the plain rectangle, whose four
  corner curves have collapsed to the corner points. A rectangle element paints this
  path with its radius field, 0 when absent.
\<close>

theorem drawRoundedRect_radius_clamped:
  "0 \<le> effective_radius w h radius
   \<and> (0 \<le> min w h / 2 \<longrightarrow>
        drawRoundedRect x y w h radius = corner_path x y w h (clamp 0 (min w h / 2) radius))
   \<and> (min w h / 2 < radius \<longrightarrow>
        drawRoundedRect x y w h radius = drawRoundedRect x y w h (min w h / 2))
   \<and> (radius \<le> 0 \<longrightarrow> drawRoundedRect x y w h radius = plain_rectangle x y w h)
   \<and> (el_type el = Some ''rectangle'' \<longrightarrow>
        (\<exists>style. paint_element e d el =
           Inr (drawRoundedRect (nullish (el_x el) 0) (nullish (el_y el) 0)
                  (nullish (el_width el) 0) (nullish (el_height el) 0)
                  (nullish (el_radius el) 0) @ [SetFillStyle style, Fill])))"
proof (intro conjI impI)
  show "0 \<le> effective_radius w h radius"
    by (rule effective_radius_nonneg)
next
  assume "0 \<le> min w h / 2"
  then show "drawRoundedRect x y w h radius = corner_path x y w h (clamp 0 (min w h / 2) radius)"
    by (simp add: drawRoundedRect_corner_path effective_radius_clamp)
next
  assume "min w h / 2 < radius"
  then show "drawRoundedRect x y w h radius = drawRoundedRect x y w h (min w h / 2)"
    by (simp add: drawRoundedRect_corner_path effective_radius_above)
next
  assume "radius \<le> 0"
  then show "drawRoundedRect x y w h radius = plain_rectangle x y w h"
    by (simp add: drawRoundedRect_corner_path effective_radius_below corner_path_zero)
next
  assume "el_type el = Some ''rectangle''"
  then show "\<exists>style. paint_element e d el =
      Inr (drawRoundedRect (nullish (el_x el) 0) (nullish (el_y el) 0)
             (nullish (el_width el) 0) (nullish (el_height el) 0)
             (nullish (el_radius el) 0) @ [SetFillStyle style, Fill])"
    by (simp add: paint_element_def paint_rectangle_def Let_def)
qed

theorem drawRoundedRect_radius_clamped_witness:
  "(0::rat) \<le> min 100 40 / 2 \<and> min 100 40 / 2 < (50::rat) \<and> (-3::rat) \<le> 0
   \<and> el_type (blank_element\<lparr>el_type := Some ''rectangle''\<rparr>) = Some ''rectangle''
   \<and> drawRoundedRect 0 0 100 40 50 = corner_path 0 0 100 40 20
   \<and> drawRoundedRect 0 0 100 40 50 = drawRoundedRect 0 0 100 40 20
   \<and> drawRoundedRect 0 0 100 40 (-3) = plain_rectangle 0 0 100 40
   \<and> (\<exists>style. paint_element offline_env [] (blank_element\<lparr>el_type := Some ''rectangle''\<rparr>) =
         Inr (drawRoundedRect 0 0 0 0 0 @ [SetFillStyle style, Fill]))"
  using drawRoundedRect_radius_clamped
          [of 100 40 50 0 0 "blank_element\<lparr>el_type := Some ''rectangle''\<rparr>" offline_env "[]"]
        drawRoundedRect_radius_clamped
          [of 100 40 "-3" 0 0 "blank_element\<lparr>el_type := Some ''rectangle''\<rparr>" offline_env "[]"]
  by (simp add: clamp_def blank_element_def nullish_def drawRoundedRect_def
        effective_radius_def corner_path_def plain_rectangle_def)

section \<open>Text font family\<close>

lemma resolveString_brand: "resolveString nts brand_font d = brand_font"
  by (simp add: resolveString_def brand_font_def)

text \<open>
  C10. A text element whose font field resolves to the empty string after placeholder
  substitution is drawn in the brand font: the family is \<open>DB-Adman-X\<close>, and the font
  the element sets on the context is its size followed by \<open>px DB-Adman-X\<close>.
\<close>

theorem text_font_falls_back_to_brand:
  assumes "el_type el = Some ''text''"
    and "el_font el = Some f"
    and "resolveString (Number_toString e) f d = []"
  shows "text_fontFamily e d el = ''DB-Adman-X''
         \<and> (\<exists>rest. paint_element e d el =
               Inr (SetFont (Number_toString e (nullish (el_fontSize el) 24) @ ''px DB-Adman-X'')
                      # rest))"
proof -
  have fam: "text_fontFamily e d el = brand_font"
  proof (cases "f = []")
    case True
    with assms(2) show ?thesis
      by (simp add: text_fontFamily_def str_or_def or_else_def resolveString_brand)
  next
    case False
    with assms(2,3) show ?thesis
      by (simp add: text_fontFamily_def str_or_def or_else_def)
  qed
  with assms(1) show ?thesis
    by (simp add: paint_element_def paint_text_def Let_def brand_font_def)
qed

theorem text_font_falls_back_to_brand_witness:
  "el_type (blank_element\<lparr>el_type := Some ''text'', el_font := Some ''{{nick}}''\<rparr>) = Some ''text''
   \<and> resolveString (Number_toString offline_env) ''{{nick}}'' [] = []
   \<and> text_fontFamily offline_env []
        (blank_element\<lparr>el_type := Some ''text'', el_font := Some ''{{nick}}''\<rparr>) = ''DB-Adman-X''
   \<and> (\<exists>rest. paint_element offline_env []
               (blank_element\<lparr>el_type := Some ''text'', el_font := Some ''{{nick}}''\<rparr>) =
             Inr (SetFont ''24px DB-Adman-X'' # rest))"
proof -
  let ?el = "blank_element\<lparr>el_type := Some ''text'', el_font := Some ''{{nick}}''\<rparr>"
  have ty: "el_type ?el = Some ''text''" and fo: "el_font ?el = Some ''{{nick}}''"
    and size: "nullish (el_fontSize blank_element) 24 = 24"
    by (simp_all add: blank_element_def nullish_def)
  have empty: "resolveString (Number_toString offline_env) ''{{nick}}'' [] = []"
    by (simp add: resolveString_def replacer_def get_property_def Object_prototype_def
          is_space_def is_word_def)
  have px: "Number_toString offline_env 24 = ''24''"
    by (simp add: offline_env_def print_int_def decimal.simps)
  from text_font_falls_back_to_brand [OF ty fo empty] ty empty show ?thesis
    by (simp add: size px)
qed

section \<open>Circular clip and ring border\<close>

text \<open>
  C4. An image element with a circle clip and a border of positive width and non-empty
  colour, once its image is acquired, makes exactly these calls, in this order: a disc
  around the centre of the bounding box, of radius half the shorter side plus half the
  border width, filled in the resolved border colour (black when it resolves to the
  empty string); then, under a clip to the circle of radius half the shorter side around
  the same centre, the image drawn into the bounding box. The disc exceeds the clip
  circle by half the border width.
\<close>

theorem circle_ring_border:
  assumes "el_type el = Some ''image''"
    and "el_clip el = Some ''circle''"
    and "el_border el = Some b"
    and "b_width b = Some bw" and "0 < bw"
    and "b_color b = Some c" and "c \<noteq> []"
    and "acquire e (image_name el) (image_source e d el) = Inr img"
    and "x = nullish (el_x el) 0" and "y = nullish (el_y el) 0"
    and "w = nullish (el_width el) 0" and "h = nullish (el_height el) 0"
  shows "paint_element e d el =
           Inr [BeginPath,
                Arc (x + w / 2) (y + h / 2) (min w h / 2 + bw / 2),
                SetFillStyle (or_else (resolveString (Number_toString e) c d) ''#000000''),
                Fill,
                Save,
                BeginPath,
                Arc (x + w / 2) (y + h / 2) (min w h / 2),
                ClosePath,
                Clip,
                DrawImage img x y w h,
                Restore]
         \<and> (min w h / 2 + bw / 2) - min w h / 2 = bw / 2"
  using assms
  by (simp add: paint_element_def paint_image_def ring_ops_def clip_ops_def ring_of_def Let_def)

lemma portrait_ring_colour:
  "resolveString (Number_toString disk_env) ''{{ring}}'' portrait_data = ''#FFD700''"
  by (simp add: resolveString_def replacer_def get_property_def portrait_data_def
        is_space_def is_word_def)

lemma portrait_acquired:
  "acquire disk_env (image_name portrait) (image_source disk_env portrait_data portrait) =
     Inr sample_image"
  by (simp add: acquire_def disk_env_def offline_env_def image_source_def portrait_def
        blank_element_def nullish_def resolveString_def replacer_def get_property_def
        portrait_data_def is_space_def is_word_def startsWith_def)

lemma portrait_fields:
  "el_type portrait = Some ''image''" "el_clip portrait = Some ''circle''"
  "el_border portrait = Some \<lparr>b_width = Some 10, b_color = Some ''{{ring}}''\<rparr>"
  "nullish (el_x portrait) 0 = 10" "nullish (el_y portrait) 0 = 20"
  "nullish (el_width portrait) 0 = 100" "nullish (el_height portrait) 0 = 80"
  by (simp_all add: portrait_def blank_element_def nullish_def)

theorem circle_ring_border_witness:
  "el_type portrait = Some ''image'' \<and> el_clip portrait = Some ''circle''
   \<and> el_border portrait = Some \<lparr>b_width = Some 10, b_color = Some ''{{ring}}''\<rparr>
   \<and> (0::rat) < 10
   \<and> acquire disk_env (image_name portrait) (image_source disk_env portrait_data portrait) =
        Inr sample_image
   \<and> paint_element disk_env portrait_data portrait =
        Inr [BeginPath, Arc 60 60 45, SetFillStyle ''#FFD700'', Fill,
             Save, BeginPath, Arc 60 60 40, ClosePath, Clip,
             DrawImage sample_image 10 20 100 80, Restore]"
proof -
  let ?b = "\<lparr>b_width = Some 10, b_color = Some ''{{ring}}''\<rparr>"
  have bw: "b_width ?b = Some 10" and bc: "b_color ?b = Some ''{{ring}}''"
    by simp_all
  have pos: "(0::rat) < 10" and ne: "''{{ring}}'' \<noteq> []"
    by simp_all
  note inst = circle_ring_border
      [OF portrait_fields(1) portrait_fields(2) portrait_fields(3) bw pos bc ne
          portrait_acquired portrait_fields(4)[symmetric] portrait_fields(5)[symmetric]
          portrait_fields(6)[symmetric] portrait_fields(7)[symmetric]]
  have "or_else ''#FFD700'' ''#000000'' = ''#FFD700''"
    by (simp add: or_else_def)
  with inst have "paint_element disk_env portrait_data portrait =
        Inr [BeginPath, Arc 60 60 45, SetFillStyle ''#FFD700'', Fill,
             Save, BeginPath, Arc 60 60 40, ClosePath, Clip,
             DrawImage sample_image 10 20 100 80, Restore]"
    by (simp add: portrait_ring_colour)
  with pos show ?thesis
    by (simp add: portrait_fields portrait_acquired)
qed

section \<open>Background-only renders\<close>

lemma compose_no_elements:
  "0 < img_width bg \<Longrightarrow> 0 < img_height bg \<Longrightarrow>
   compose e [] d bg = Inr (background_alone bg (img_width bg) (img_height bg))"
  by (simp add: compose_def surface_dim_def background_alone_def Let_def)

lemma compose_default_canvas:
  "compose e [] d default_canvas = Inr (background_alone default_canvas 1080 1080)"
  by (simp add: compose_def surface_dim_def background_alone_def default_canvas_def Let_def)

text \<open>
  With no elements, the rendered surface is the background alone, drawn from the
  origin at exactly the surface's width and height, and the surface has the natural
  dimensions of the background image: in server.js whenever a background is resolved
  (from the template or the fallback path), in api/render.js likewise, and there, when
  neither loads, the surface is 1080 by 1080 showing the blank default canvas. The
  natural dimensions of a decoded image are taken to be positive.
\<close>

lemma empty_template_is_background:
  assumes "template_elements tdef = []"
  shows "(\<forall>bg. post_render_background e tdef d = Inr bg \<and> 0 < img_width bg \<and> 0 < img_height bg
            \<longrightarrow> post_render_try e tdef d =
                  Inr (background_alone bg (img_width bg) (img_height bg)))
       \<and> (\<forall>bg. (template_background e tdef d = Some bg
                 \<or> (template_background e tdef d = None \<and> loadImage e (fallbackBg e) = Inr bg))
               \<and> 0 < img_width bg \<and> 0 < img_height bg
            \<longrightarrow> handler_try e tdef d =
                  Inr (background_alone bg (img_width bg) (img_height bg)))
       \<and> (template_background e tdef d = None \<and> (\<exists>err. loadImage e (fallbackBg e) = Inl err)
            \<longrightarrow> handler_try e tdef d = Inr (background_alone default_canvas 1080 1080))"
proof (intro conjI allI impI)
  fix bg
  assume "post_render_background e tdef d = Inr bg \<and> 0 < img_width bg \<and> 0 < img_height bg"
  with assms show "post_render_try e tdef d =
      Inr (background_alone bg (img_width bg) (img_height bg))"
    by (simp add: post_render_try_def compose_no_elements)
next
  fix bg
  assume a: "(template_background e tdef d = Some bg
               \<or> (template_background e tdef d = None \<and> loadImage e (fallbackBg e) = Inr bg))
             \<and> 0 < img_width bg \<and> 0 < img_height bg"
  then have "handler_background e tdef d = bg"
    by (auto simp: handler_background_def)
  with a assms show "handler_try e tdef d =
      Inr (background_alone bg (img_width bg) (img_height bg))"
    by (simp add: handler_try_def compose_no_elements)
next
  assume "template_background e tdef d = None \<and> (\<exists>err. loadImage e (fallbackBg e) = Inl err)"
  then have "handler_background e tdef d = default_canvas"
    by (auto simp: handler_background_def)
  with assms show "handler_try e tdef d = Inr (background_alone default_canvas 1080 1080)"
    by (simp add: handler_try_def compose_default_canvas)
qed

lemma empty_template_is_background_example:
  "template_elements (Some \<lparr>background = None, elements = []\<rparr>) = []
   \<and> post_render_try disk_env (Some \<lparr>background = None, elements = []\<rparr>) [] =
       Inr (background_alone sample_image 800 600)
   \<and> handler_try disk_env (Some \<lparr>background = None, elements = []\<rparr>) [] =
       Inr (background_alone sample_image 800 600)
   \<and> handler_try offline_env (Some \<lparr>background = None, elements = []\<rparr>) [] =
       Inr (background_alone default_canvas 1080 1080)"
  using empty_template_is_background
          [of "Some \<lparr>background = None, elements = []\<rparr>" disk_env "[]"]
        empty_template_is_background
          [of "Some \<lparr>background = None, elements = []\<rparr>" offline_env "[]"]
  by (simp add: template_elements_def template_background_def post_render_background_def
        disk_env_def offline_env_def sample_image_def)

section \<open>Background fallback\<close>

lemma offline_template_background: "template_background offline_env tdef d = None"
  by (simp add: template_background_def offline_env_def split: option.splits)

lemma post_render_fallback_fatal:
  "template_background e tdef d = None \<Longrightarrow> loadImage e (fallbackBg e) = Inl err \<Longrightarrow>
   post_render e tdef d = Http_error 500 ''Image generation failed''"
  by (simp add: post_render_def post_render_try_def post_render_background_def)

lemma handler_fallback_recovers:
  "template_background e (Some t) d = None \<Longrightarrow> loadImage e (fallbackBg e) = Inl err \<Longrightarrow>
   handler e (Some t) d =
     (case compose e (elements t) d default_canvas of
        Inl err \<Rightarrow> Http_error 500 ''Image generation failed''
      | Inr s \<Rightarrow> Json_image s)"
  by (simp add: handler_def handler_try_def handler_background_def template_elements_def)

text \<open>
  C1. With no file on disk, the template's background and the fallback path both fail
  to load. The handler of api/render.js then renders the blank 1080 by 1080 white
  canvas; POST /render of server.js answers 500 \<open>Image generation failed\<close>: its
  fallback load is not guarded, so the failure reaches the outer catch.
\<close>

theorem post_render_fallback_failure_is_fatal:
  "post_render offline_env (Some \<lparr>background = Some ''bg/{{theme}}.png'', elements = []\<rparr>)
     [(''theme'', SStr ''gold'')] = Http_error 500 ''Image generation failed''
   \<and> handler offline_env (Some \<lparr>background = Some ''bg/{{theme}}.png'', elements = []\<rparr>)
       [(''theme'', SStr ''gold'')] = Json_image (background_alone default_canvas 1080 1080)"
proof -
  have fb: "loadImage offline_env (fallbackBg offline_env) = Inl (Raised ''ENOENT'')"
    by (simp add: offline_env_def)
  show ?thesis
    by (simp add: post_render_def post_render_try_def post_render_background_def handler_def
          handler_try_def handler_background_def offline_template_background fb
          template_elements_def compose_default_canvas)
qed

text \<open>
  C8. A template with no elements, rendered where no background can be resolved (the
  template names none and the fallback path does not load): POST /render of server.js
  produces no surface at all and answers 500 \<open>Image generation failed\<close>, where the
  handler of api/render.js renders the 1080 by 1080 surface holding the blank default
  canvas alone.
\<close>

theorem post_render_unresolved_background_no_surface:
  "post_render_try offline_env (Some \<lparr>background = None, elements = []\<rparr>) [] =
     Inl (Raised ''ENOENT'')
   \<and> post_render offline_env (Some \<lparr>background = None, elements = []\<rparr>) [] =
       Http_error 500 ''Image generation failed''
   \<and> handler_try offline_env (Some \<lparr>background = None, elements = []\<rparr>) [] =
       Inr (background_alone default_canvas 1080 1080)"
proof -
  have fb: "loadImage offline_env (fallbackBg offline_env) = Inl (Raised ''ENOENT'')"
    by (simp add: offline_env_def)
  show ?thesis
    by (simp add: post_render_def post_render_try_def post_render_background_def
          handler_try_def handler_background_def offline_template_background fb
          template_elements_def compose_default_canvas)
qed

section \<open>Image acquisition failures\<close>

lemma paint_elements_failure:
  "el \<in> set els \<Longrightarrow> paint_element e d el = Inl err \<Longrightarrow>
   \<exists>err'. paint_elements e d els ops = Inl err'"
proof (induction els arbitrary: ops)
  case Nil
  then show ?case by simp
next
  case (Cons a els)
  show ?case
  proof (cases "paint_element e d a")
    case (Inl x)
    then show ?thesis by simp
  next
    case (Inr new)
    with Cons.prems have "el \<in> set els" by auto
    from Cons.IH[OF this Cons.prems(2)] Inr show ?thesis by simp
  qed
qed

lemma paint_elements_first_failure:
  "paint_elements e d pre ops = Inr ops' \<Longrightarrow> paint_element e d el = Inl err \<Longrightarrow>
   paint_elements e d (pre @ el # post) ops = Inl err"
  by (induction pre arbitrary: ops) (auto split: sum.splits)

lemma compose_failure:
  "el \<in> set els \<Longrightarrow> paint_element e d el = Inl err \<Longrightarrow> \<exists>err'. compose e els d bg = Inl err'"
proof -
  assume "el \<in> set els" and "paint_element e d el = Inl err"
  then obtain err' where
    "paint_elements e d els
       [DrawImage bg 0 0 (of_nat (surface_dim (img_width bg)))
          (of_nat (surface_dim (img_height bg)))] = Inl err'"
    using paint_elements_failure by blast
  then show ?thesis
    by (simp add: compose_def Let_def)
qed

lemma paint_image_failure:
  "el_type el = Some ''image'' \<Longrightarrow> acquire e (image_name el) (image_source e d el) = Inl err \<Longrightarrow>
   paint_element e d el = Inl err"
  by (simp add: paint_element_def paint_image_def)

text \<open>
  C3, as the code has it. When the acquisition of an image element of the template
  fails, both entry points answer 500 \<open>Image generation failed\<close> and return no
  image. The element pass stops at the first failing element with that element's error:
  for a response that is not ok the error carries the element's name and the status;
  for a fetch that fails, a body that cannot be read or decoded, and a local source that
  cannot be loaded, it is the error the collaborator raised, passed on unchanged.
\<close>

theorem image_failure_aborts_render:
  assumes "el \<in> set (template_elements tdef)"
    and "el_type el = Some ''image''"
    and "acquire e (image_name el) (image_source e d el) = Inl err"
  shows "post_render e tdef d = Http_error 500 ''Image generation failed''
       \<and> handler e tdef d = Http_error 500 ''Image generation failed''
       \<and> (\<forall>pre post ops ops'. paint_elements e d pre ops = Inr ops' \<longrightarrow>
             paint_elements e d (pre @ el # post) ops = Inl err)
       \<and> (\<forall>resp. (startsWith (image_source e d el) ''http://''
                    \<or> startsWith (image_source e d el) ''https://'')
                 \<and> fetch e (image_source e d el) = Inr resp \<and> \<not> resp_ok resp
             \<longrightarrow> err = Failed_to_fetch_image (image_name el) (resp_status resp))
       \<and> (\<forall>resp. (startsWith (image_source e d el) ''http://''
                    \<or> startsWith (image_source e d el) ''https://'')
                 \<and> fetch e (image_source e d el) = Inr resp \<and> resp_ok resp
             \<longrightarrow> resp_arrayBuffer resp = Inl err
                 \<or> (\<exists>buf. resp_arrayBuffer resp = Inr buf \<and> loadImageBuffer e buf = Inl err))
       \<and> ((startsWith (image_source e d el) ''http://''
             \<or> startsWith (image_source e d el) ''https://'')
            \<and> (\<forall>resp. fetch e (image_source e d el) \<noteq> Inr resp)
             \<longrightarrow> fetch e (image_source e d el) = Inl err)
       \<and> (\<not> startsWith (image_source e d el) ''http://''
            \<and> \<not> startsWith (image_source e d el) ''https://''
             \<longrightarrow> loadImage e (resolve_local e (image_source e d el)) = Inl err)"
proof -
  have fail: "paint_element e d el = Inl err"
    using assms(2,3) by (rule paint_image_failure)
  have comp: "\<exists>err'. compose e (template_elements tdef) d bg = Inl err'" for bg
    using assms(1) fail by (rule compose_failure)
  have server: "post_render e tdef d = Http_error 500 ''Image generation failed''"
  proof (cases "post_render_background e tdef d")
    case (Inl x)
    then show ?thesis by (simp add: post_render_def post_render_try_def)
  next
    case (Inr bg)
    from comp[of bg] obtain err' where "compose e (template_elements tdef) d bg = Inl err'" ..
    with Inr show ?thesis by (simp add: post_render_def post_render_try_def)
  qed
  from assms(1) obtain t where t: "tdef = Some t"
    by (cases tdef) (simp_all add: template_elements_def)
  from comp[of "handler_background e tdef d"] obtain err'
    where "handler_try e tdef d = Inl err'" by (auto simp: handler_try_def)
  with t have api: "handler e tdef d = Http_error 500 ''Image generation failed''"
    by (simp add: handler_def)
  have first: "\<forall>pre post ops ops'. paint_elements e d pre ops = Inr ops' \<longrightarrow>
      paint_elements e d (pre @ el # post) ops = Inl err"
    using fail by (blast intro: paint_elements_first_failure)
  have remote: "\<forall>resp. (startsWith (image_source e d el) ''http://''
                    \<or> startsWith (image_source e d el) ''https://'')
                 \<and> fetch e (image_source e d el) = Inr resp \<and> \<not> resp_ok resp
             \<longrightarrow> err = Failed_to_fetch_image (image_name el) (resp_status resp)"
    using assms(3) by (auto simp: acquire_def)
  have localp: "\<not> startsWith (image_source e d el) ''http://''
            \<and> \<not> startsWith (image_source e d el) ''https://''
             \<longrightarrow> loadImage e (resolve_local e (image_source e d el)) = Inl err"
    using assms(3) by (auto simp: acquire_def)
  have body: "\<forall>resp. (startsWith (image_source e d el) ''http://''
                    \<or> startsWith (image_source e d el) ''https://'')
                 \<and> fetch e (image_source e d el) = Inr resp \<and> resp_ok resp
             \<longrightarrow> resp_arrayBuffer resp = Inl err
                 \<or> (\<exists>buf. resp_arrayBuffer resp = Inr buf \<and> loadImageBuffer e buf = Inl err)"
    using assms(3) by (auto simp: acquire_def split: sum.splits)
  have transport: "(startsWith (image_source e d el) ''http://''
             \<or> startsWith (image_source e d el) ''https://'')
            \<and> (\<forall>resp. fetch e (image_source e d el) \<noteq> Inr resp)
             \<longrightarrow> fetch e (image_source e d el) = Inl err"
    using assms(3) by (auto simp: acquire_def split: sum.splits)
  show ?thesis
    by (intro conjI) (rule server api first remote body transport localp)+
qed


lemma assets_background:
  "post_render_background assets_env (Some \<lparr>background = None, elements = els\<rparr>) d =
     Inr sample_image"
  by (simp add: post_render_background_def template_background_def assets_env_def
        offline_env_def)

lemma local_photo_fails:
  "acquire assets_env (image_name (local_photo n)) (image_source assets_env d (local_photo n)) =
     Inl (Raised ''ENOENT'')"
  by (simp add: acquire_def image_source_def local_photo_def blank_element_def nullish_def
        resolveString_def startsWith_def resolve_local_def isAbsolute_def assets_env_def
        offline_env_def)

lemma local_photo_type: "el_type (local_photo n) = Some ''image''"
  by (simp add: local_photo_def blank_element_def)

lemma remote_photo_fails:
  "acquire not_found_env (image_name remote_photo)
     (image_source not_found_env [(''id'', SStr ''7'')] remote_photo) =
     Inl (Failed_to_fetch_image ''avatar'' 404)"
  by (simp add: acquire_def image_source_def image_name_def str_or_def remote_photo_def
        blank_element_def nullish_def resolveString_def replacer_def get_property_def
        is_space_def is_word_def startsWith_def not_found_env_def assets_env_def
        offline_env_def)

lemma remote_photo_type: "el_type remote_photo = Some ''image''"
  by (simp add: remote_photo_def blank_element_def)

text \<open>
  C3, as stated, fails: two image elements that differ only in their name, read from the
  same missing local path, abort the render with the same error, the loader's, which
  names neither.
\<close>

theorem local_failure_does_not_name_element:
  "post_render_try assets_env
     (Some \<lparr>background = None, elements = [local_photo ''avatar'']\<rparr>) [] =
     Inl (Raised ''ENOENT'')
   \<and> post_render_try assets_env
       (Some \<lparr>background = None, elements = [local_photo ''badge'']\<rparr>) [] =
     Inl (Raised ''ENOENT'')"
  by (simp add: post_render_try_def assets_background template_elements_def compose_def
        Let_def paint_image_failure[OF local_photo_type local_photo_fails])

theorem image_failure_aborts_render_witness:
  "remote_photo \<in> set (template_elements (Some \<lparr>background = None, elements = [remote_photo]\<rparr>))
   \<and> el_type remote_photo = Some ''image''
   \<and> acquire not_found_env (image_name remote_photo)
        (image_source not_found_env [(''id'', SStr ''7'')] remote_photo) =
        Inl (Failed_to_fetch_image ''avatar'' 404)
   \<and> post_render not_found_env (Some \<lparr>background = None, elements = [remote_photo]\<rparr>)
        [(''id'', SStr ''7'')] = Http_error 500 ''Image generation failed''
   \<and> handler not_found_env (Some \<lparr>background = None, elements = [remote_photo]\<rparr>)
        [(''id'', SStr ''7'')] = Http_error 500 ''Image generation failed''
   \<and> local_photo ''badge''
        \<in> set (template_elements (Some \<lparr>background = None, elements = [local_photo ''badge'']\<rparr>))
   \<and> acquire assets_env (image_name (local_photo ''badge''))
        (image_source assets_env [] (local_photo ''badge'')) = Inl (Raised ''ENOENT'')
   \<and> post_render assets_env (Some \<lparr>background = None, elements = [local_photo ''badge'']\<rparr>) [] =
        Http_error 500 ''Image generation failed''"
proof -
  have m1: "remote_photo
      \<in> set (template_elements (Some \<lparr>background = None, elements = [remote_photo]\<rparr>))"
    by (simp add: template_elements_def)
  have m2: "local_photo ''badge''
      \<in> set (template_elements (Some \<lparr>background = None, elements = [local_photo ''badge'']\<rparr>))"
    by (simp add: template_elements_def)
  note r = image_failure_aborts_render [OF m1 remote_photo_type remote_photo_fails]
  note l = image_failure_aborts_render [OF m2 local_photo_type local_photo_fails]
  show ?thesis
    by (intro conjI)
      (rule m1 m2 remote_photo_type remote_photo_fails local_photo_fails
         r[THEN conjunct1] r[THEN conjunct2, THEN conjunct1] l[THEN conjunct1])+
qed

section \<open>Template update\<close>

lemma get_elements_array_truthy: "get_elements v = JArr xs \<Longrightarrow> truthy v"
  by (cases v) simp_all

text \<open>
  C9. The update answers 400 \<open>Invalid template format\<close>, and leaves the template
  in memory as it was, for every payload whose \<open>elements\<close> is not an array: an absent
  payload, one without the field, one where it is anything else. A payload whose
  \<open>elements\<close> is an array passes, whatever the array holds, and is stored as it is
  when the file write succeeds (500 and no change when it fails). So the stored template
  keeps an array of elements through every update.
\<close>

theorem put_template_validation:
  "(\<not> isArray (get_elements newTemplate) \<longrightarrow>
      put_template write_ok newTemplate templateDefinition =
        (Put_error 400 ''Invalid template format'', templateDefinition))
   \<and> (get_elements newTemplate = JArr els \<longrightarrow>
        put_template True newTemplate templateDefinition = (Put_success, newTemplate)
        \<and> put_template False newTemplate templateDefinition =
            (Put_error 500 ''Failed to update template'', templateDefinition))
   \<and> (isArray (get_elements templateDefinition) \<longrightarrow>
        isArray (get_elements (snd (put_template write_ok newTemplate templateDefinition))))"
proof (intro conjI impI)
  assume "\<not> isArray (get_elements newTemplate)"
  then show "put_template write_ok newTemplate templateDefinition =
      (Put_error 400 ''Invalid template format'', templateDefinition)"
    by (simp add: put_template_def)
next
  assume a: "get_elements newTemplate = JArr els"
  then have "truthy newTemplate" by (rule get_elements_array_truthy)
  with a show "put_template True newTemplate templateDefinition = (Put_success, newTemplate)"
    and "put_template False newTemplate templateDefinition =
      (Put_error 500 ''Failed to update template'', templateDefinition)"
    by (simp_all add: put_template_def)
next
  assume "isArray (get_elements templateDefinition)"
  then show "isArray (get_elements (snd (put_template write_ok newTemplate templateDefinition)))"
    by (simp add: put_template_def)
qed

theorem put_template_validation_witness:
  "\<not> isArray (get_elements JUndefined)
   \<and> put_template True JUndefined (JObj [(''elements'', JArr [])]) =
       (Put_error 400 ''Invalid template format'', JObj [(''elements'', JArr [])])
   \<and> \<not> isArray (get_elements (JObj [(''elements'', JStr ''none'')]))
   \<and> put_template True (JObj [(''elements'', JStr ''none'')]) (JObj [(''elements'', JArr [])]) =
       (Put_error 400 ''Invalid template format'', JObj [(''elements'', JArr [])])
   \<and> get_elements (JObj [(''elements'', JArr [JNull, JNum 42])]) = JArr [JNull, JNum 42]
   \<and> put_template True (JObj [(''elements'', JArr [JNull, JNum 42])])
        (JObj [(''elements'', JArr [])]) =
       (Put_success, JObj [(''elements'', JArr [JNull, JNum 42])])
   \<and> isArray (get_elements (JObj [(''elements'', JArr [])]))"
  using put_template_validation [of JUndefined True "JObj [(''elements'', JArr [])]" "[]"]
        put_template_validation
          [of "JObj [(''elements'', JStr ''none'')]" True "JObj [(''elements'', JArr [])]" "[]"]
        put_template_validation
          [of "JObj [(''elements'', JArr [JNull, JNum 42])]" True
              "JObj [(''elements'', JArr [])]" "[JNull, JNum 42]"]
  by simp

section \<open>Paint order\<close>

lemma paint_elements_in_order:
  "\<forall>el\<in>set els. paint_element e d el = Inr (calls el) \<Longrightarrow>
   paint_elements e d els ops = Inr (ops @ concat (map calls els))"
  by (induction els arbitrary: ops) simp_all

lemma paint_solid_rect:
  "resolveString (Number_toString e) colour d = colour \<Longrightarrow>
   paint_element e d (solid_rect x y w h radius colour) =
     Inr (drawRoundedRect x y w h radius @ [SetFillStyle colour, Fill])"
  by (simp add: paint_element_def paint_rectangle_def solid_rect_def blank_element_def
        nullish_def)

lemma red_literal: "resolveString nts ''#FF0000'' d = ''#FF0000''"
  by (simp add: resolveString_def)

lemma green_literal: "resolveString nts ''#00FF00'' d = ''#00FF00''"
  by (simp add: resolveString_def)

lemma path_after_drawRoundedRect:
  "foldl (paint_step R p) s (drawRoundedRect x y w h radius) =
     s\<lparr>ps_path := drawRoundedRect x y w h radius\<rparr>"
  by (simp add: drawRoundedRect_def Let_def)

lemma fill_sets_pixel:
  assumes "inside R (drawRoundedRect x y w h radius) p" and "opaque R c"
    and "\<not> ps_clipped s"
  shows "ps_pixel (foldl (paint_step R p) s
           (drawRoundedRect x y w h radius @ [SetFillStyle c, Fill])) = Colour c"
  using assms by (simp add: path_after_drawRoundedRect)


lemma rectangle_keeps_unclipped:
  "\<not> ps_clipped s \<Longrightarrow> \<not> ps_clipped (foldl (paint_step R p) s (paint_rectangle e d el))"
  by (simp add: paint_rectangle_def Let_def path_after_drawRoundedRect)

lemma text_keeps_unclipped:
  "\<not> ps_clipped s \<Longrightarrow> \<not> ps_clipped (foldl (paint_step R p) s (paint_text e d el))"
  by (simp add: paint_text_def Let_def)

lemma ring_keeps_state:
  "ps_clipped (foldl (paint_step R p) s (ring_ops e d el)) = ps_clipped s"
  by (simp add: ring_ops_def Let_def split: option.splits prod.splits)

lemma clip_keeps_saved:
  "ps_saved (foldl (paint_step R p) s (clip_ops el)) = ps_saved s"
  by (simp add: clip_ops_def Let_def)

lemma image_keeps_unclipped:
  assumes "\<not> ps_clipped s" and "paint_image e d el = Inr new"
  shows "\<not> ps_clipped (foldl (paint_step R p) s new)"
proof -
  from assms(2) obtain img where new:
    "new = ring_ops e d el @ [Save] @ clip_ops el
             @ [DrawImage img (nullish (el_x el) 0) (nullish (el_y el) 0)
                  (nullish (el_width el) 0) (nullish (el_height el) 0), Restore]"
    by (auto simp: paint_image_def Let_def split: sum.splits)
  let ?s1 = "foldl (paint_step R p) s (ring_ops e d el)"
  have "\<not> ps_clipped ?s1" using assms(1) by (simp add: ring_keeps_state)
  then show ?thesis
    by (simp add: new clip_keeps_saved)
qed

lemma element_keeps_unclipped:
  "\<not> ps_clipped s \<Longrightarrow> paint_element e d el = Inr new \<Longrightarrow>
   \<not> ps_clipped (foldl (paint_step R p) s new)"
  by (auto simp: paint_element_def rectangle_keeps_unclipped text_keeps_unclipped
        dest: image_keeps_unclipped split: if_splits)

lemma elements_keep_unclipped:
  "\<forall>el\<in>set els. paint_element e d el = Inr (calls el) \<Longrightarrow> \<not> ps_clipped s \<Longrightarrow>
   \<not> ps_clipped (foldl (paint_step R p) s (concat (map calls els)))"
proof (induction els arbitrary: s)
  case Nil
  then show ?case by simp
next
  case (Cons a els)
  from Cons.prems(1) have a: "paint_element e d a = Inr (calls a)"
    and rest: "\<forall>el\<in>set els. paint_element e d el = Inr (calls el)"
    by simp_all
  have "\<not> ps_clipped (foldl (paint_step R p) s (calls a))"
    using Cons.prems(2) a by (rule element_keeps_unclipped)
  with Cons.IH[OF rest] show ?case by simp
qed


text \<open>
  C7. When every element paints, the calls on the surface are the background draw
  followed by each element's calls, in array order. A rectangle element painted last in
  an opaque colour leaves that colour at every point its path contains, whatever the
  elements before it and the background drew there. In particular two rectangles on
  the same box, \<open>#FF0000\<close> then \<open>#00FF00\<close>, leave \<open>#00FF00\<close> there.
\<close>

theorem painters_algorithm:
  "((\<forall>el\<in>set els. paint_element e d el = Inr (calls el)) \<longrightarrow>
      (\<exists>s. compose e els d bg = Inr s
           \<and> sf_ops s = DrawImage bg 0 0 (of_nat (sf_width s)) (of_nat (sf_height s))
                          # concat (map calls els)))
   \<and> ((\<forall>el\<in>set els. paint_element e d el = Inr (calls el))
        \<and> paint_element e d lastel = Inr (drawRoundedRect x y w h radius @ [SetFillStyle c, Fill])
        \<and> inside R (drawRoundedRect x y w h radius) p \<and> opaque R c \<longrightarrow>
      (\<exists>s. compose e (els @ [lastel]) d bg = Inr s \<and> pixel_at R (sf_ops s) p = Colour c))
   \<and> (inside R (drawRoundedRect x y w h radius) p \<and> opaque R ''#00FF00'' \<longrightarrow>
      (\<exists>s. compose e [solid_rect x y w h radius ''#FF0000'',
                       solid_rect x y w h radius ''#00FF00''] d bg = Inr s
           \<and> pixel_at R (sf_ops s) p = Colour ''#00FF00''))"
proof -
  let ?W = "surface_dim (img_width bg)" and ?H = "surface_dim (img_height bg)"
  let ?bgop = "DrawImage bg 0 0 (of_nat ?W) (of_nat ?H)"
  have order: "\<exists>s. compose e els d bg = Inr s
           \<and> sf_ops s = DrawImage bg 0 0 (of_nat (sf_width s)) (of_nat (sf_height s))
                          # concat (map calls els)"
    if "\<forall>el\<in>set els. paint_element e d el = Inr (calls el)" for els calls
    using paint_elements_in_order[OF that, of "[?bgop]"]
    by (simp add: compose_def Let_def)
  have over: "\<exists>s. compose e (els @ [lastel]) d bg = Inr s \<and> pixel_at R (sf_ops s) p = Colour c"
    if ok: "\<forall>el\<in>set els. paint_element e d el = Inr (calls el)"
      and lastel: "paint_element e d lastel = Inr (drawRoundedRect x y w h radius @ [SetFillStyle c, Fill])"
      and ins: "inside R (drawRoundedRect x y w h radius) p" and opq: "opaque R c"
    for els calls lastel c
  proof -
    let ?calls = "\<lambda>el. if el \<in> set els then calls el
                       else drawRoundedRect x y w h radius @ [SetFillStyle c, Fill]"
    let ?lastcalls = "drawRoundedRect x y w h radius @ [SetFillStyle c, Fill]"
    have all: "\<forall>el\<in>set (els @ [lastel]). paint_element e d el = Inr (?calls el)"
      using ok lastel by auto
    have same: "map ?calls els = map calls els" by simp
    have topc: "paint_element e d lastel = Inr (?calls lastel)"
      using ok lastel by auto
    then have topeq: "?calls lastel = ?lastcalls"
      using lastel by simp
    have ops: "paint_elements e d (els @ [lastel]) [?bgop] =
        Inr ([?bgop] @ concat (map calls els) @ ?lastcalls)"
      using paint_elements_in_order[OF all, of "[?bgop]"] same topeq by simp
    let ?s0 = "foldl (paint_step R p) fresh_context ([?bgop] @ concat (map calls els))"
    let ?sb = "foldl (paint_step R p) fresh_context [?bgop]"
    have "\<not> ps_clipped ?sb"
      by (simp add: fresh_context_def)
    with ok have "\<not> ps_clipped (foldl (paint_step R p) ?sb (concat (map calls els)))"
      by (rule elements_keep_unclipped)
    then have "\<not> ps_clipped ?s0"
      unfolding foldl_append .
    with ins opq have "ps_pixel (foldl (paint_step R p) ?s0 ?lastcalls) = Colour c"
      by (rule fill_sets_pixel)
    then have "pixel_at R ([?bgop] @ concat (map calls els) @ ?lastcalls) p = Colour c"
      by (simp add: pixel_at_def)
    with ops show ?thesis
      by (simp add: compose_def Let_def)
  qed
  have example: "\<exists>s. compose e [solid_rect x y w h radius ''#FF0000'',
                       solid_rect x y w h radius ''#00FF00''] d bg = Inr s
           \<and> pixel_at R (sf_ops s) p = Colour ''#00FF00''"
    if "inside R (drawRoundedRect x y w h radius) p" and "opaque R ''#00FF00''"
  proof -
    have red: "\<forall>el\<in>set [solid_rect x y w h radius ''#FF0000''].
        paint_element e d el = Inr (drawRoundedRect x y w h radius @ [SetFillStyle ''#FF0000'', Fill])"
      by (simp add: paint_solid_rect red_literal)
    have green: "paint_element e d (solid_rect x y w h radius ''#00FF00'') =
        Inr (drawRoundedRect x y w h radius @ [SetFillStyle ''#00FF00'', Fill])"
      by (simp add: paint_solid_rect green_literal)
    from over[OF red green that] show ?thesis by simp
  qed
  from order over example show ?thesis
    by blast
qed


theorem painters_algorithm_witness:
  "paint_element offline_env [] (solid_rect 0 0 100 100 0 ''#FF0000'') =
        Inr (drawRoundedRect 0 0 100 100 0 @ [SetFillStyle ''#FF0000'', Fill])
   \<and> paint_element offline_env [] (solid_rect 0 0 100 100 0 ''#00FF00'') =
        Inr (drawRoundedRect 0 0 100 100 0 @ [SetFillStyle ''#00FF00'', Fill])
   \<and> inside box_raster (drawRoundedRect 0 0 100 100 0) (50, 50)
   \<and> opaque box_raster ''#00FF00''
   \<and> (\<exists>s. compose offline_env [solid_rect 0 0 100 100 0 ''#FF0000''] [] default_canvas = Inr s
          \<and> sf_ops s = [DrawImage default_canvas 0 0 (of_nat (sf_width s)) (of_nat (sf_height s))]
                          @ drawRoundedRect 0 0 100 100 0 @ [SetFillStyle ''#FF0000'', Fill])
   \<and> (\<exists>s. compose offline_env [solid_rect 0 0 100 100 0 ''#FF0000'',
                                  solid_rect 0 0 100 100 0 ''#00FF00''] [] default_canvas = Inr s
          \<and> pixel_at box_raster (sf_ops s) (50, 50) = Colour ''#00FF00'')"
proof -
  have red: "\<forall>el\<in>set [solid_rect 0 0 100 100 0 ''#FF0000''].
      paint_element offline_env [] el =
        Inr (drawRoundedRect 0 0 100 100 0 @ [SetFillStyle ''#FF0000'', Fill])"
    by (simp add: paint_solid_rect red_literal)
  have green: "paint_element offline_env [] (solid_rect 0 0 100 100 0 ''#00FF00'') =
        Inr (drawRoundedRect 0 0 100 100 0 @ [SetFillStyle ''#00FF00'', Fill])"
    by (simp add: paint_solid_rect green_literal)
  have ins: "inside box_raster (drawRoundedRect 0 0 100 100 0) (50, 50)"
    by (simp add: box_raster_def box_inside_def drawRoundedRect_def effective_radius_def)
  have opq: "opaque box_raster ''#00FF00''"
    by (simp add: box_raster_def)
  note inst = painters_algorithm
      [where els = "[solid_rect 0 0 100 100 0 ''#FF0000'']" and e = offline_env and d = "[]"
         and calls = "\<lambda>el. drawRoundedRect 0 0 100 100 0 @ [SetFillStyle ''#FF0000'', Fill]"
         and bg = default_canvas and lastel = "solid_rect 0 0 100 100 0 ''#00FF00''"
         and x = 0 and y = 0 and w = 100 and h = 100 and radius = 0 and c = "''#00FF00''"
         and R = box_raster and p = "(50, 50)"]
  from inst red green ins opq show ?thesis
    by simp
qed

section \<open>Unknown element types\<close>

lemma template_background_elements:
  "template_background e (Some (t\<lparr>elements := els\<rparr>)) d = template_background e (Some t) d"
  by (simp add: template_background_def)

text \<open>
  C6. An element whose type is none of image, rectangle and text makes no call on the
  context and raises nothing. A render of a template that holds such an element
  anywhere in its list is the render of the template without it: the element pass, the
  composed surface and the response of either entry point are the same. And the
  remaining elements still paint, in their array order: when each of them paints, the
  calls of the element pass are the calls made so far followed by the calls of the
  elements before the unknown one and then the calls of those after it, and the
  composed surface holds the background draw followed by exactly these.
\<close>

theorem unknown_type_skipped:
  assumes "el_type el \<noteq> Some ''image''" and "el_type el \<noteq> Some ''rectangle''"
    and "el_type el \<noteq> Some ''text''"
  shows "paint_element e d el = Inr []
         \<and> paint_elements e d (pre @ el # post) ops = paint_elements e d (pre @ post) ops
         \<and> compose e (pre @ el # post) d bg = compose e (pre @ post) d bg
         \<and> post_render e (Some (t\<lparr>elements := pre @ el # post\<rparr>)) d =
             post_render e (Some (t\<lparr>elements := pre @ post\<rparr>)) d
         \<and> handler e (Some (t\<lparr>elements := pre @ el # post\<rparr>)) d =
             handler e (Some (t\<lparr>elements := pre @ post\<rparr>)) d
         \<and> ((\<forall>x\<in>set (pre @ post). paint_element e d x = Inr (calls x)) \<longrightarrow>
              paint_elements e d (pre @ el # post) ops =
                Inr (ops @ concat (map calls pre) @ concat (map calls post))
              \<and> (\<exists>s. compose e (pre @ el # post) d bg = Inr s
                    \<and> sf_ops s =
                        DrawImage bg 0 0 (of_nat (sf_width s)) (of_nat (sf_height s))
                          # concat (map calls pre) @ concat (map calls post)))"
proof -
  have skip: "paint_element e d el = Inr []"
    using assms by (simp add: paint_element_def)
  have loop: "paint_elements e d (pre @ el # post) ops = paint_elements e d (pre @ post) ops"
    for ops
    by (induction pre arbitrary: ops) (simp_all add: skip split: sum.splits)
  have comp: "compose e (pre @ el # post) d bg = compose e (pre @ post) d bg" for bg
    by (simp add: loop compose_def)
  have bg_same: "post_render_background e (Some (t\<lparr>elements := els\<rparr>)) d =
      post_render_background e (Some t) d" for els
    by (simp add: post_render_background_def template_background_elements)
  have try_same: "post_render_try e (Some (t\<lparr>elements := pre @ el # post\<rparr>)) d =
      post_render_try e (Some (t\<lparr>elements := pre @ post\<rparr>)) d"
    by (cases "post_render_background e (Some t) d")
      (simp_all add: post_render_try_def bg_same template_elements_def comp)
  have server: "post_render e (Some (t\<lparr>elements := pre @ el # post\<rparr>)) d =
      post_render e (Some (t\<lparr>elements := pre @ post\<rparr>)) d"
    by (simp add: post_render_def try_same)
  have hbg_same: "handler_background e (Some (t\<lparr>elements := els\<rparr>)) d =
      handler_background e (Some t) d" for els
    by (simp add: handler_background_def template_background_elements)
  have htry_same: "handler_try e (Some (t\<lparr>elements := pre @ el # post\<rparr>)) d =
      handler_try e (Some (t\<lparr>elements := pre @ post\<rparr>)) d"
    by (simp add: handler_try_def hbg_same template_elements_def comp)
  have api: "handler e (Some (t\<lparr>elements := pre @ el # post\<rparr>)) d =
      handler e (Some (t\<lparr>elements := pre @ post\<rparr>)) d"
    by (simp add: handler_def htry_same)
  have rest: "paint_elements e d (pre @ el # post) ops =
                Inr (ops @ concat (map calls pre) @ concat (map calls post))
              \<and> (\<exists>s. compose e (pre @ el # post) d bg = Inr s
                    \<and> sf_ops s =
                        DrawImage bg 0 0 (of_nat (sf_width s)) (of_nat (sf_height s))
                          # concat (map calls pre) @ concat (map calls post))"
    if ok: "\<forall>x\<in>set (pre @ post). paint_element e d x = Inr (calls x)"
  proof -
    have pass: "paint_elements e d (pre @ el # post) ops' =
        Inr (ops' @ concat (map calls pre) @ concat (map calls post))" for ops'
    proof -
      have "paint_elements e d (pre @ el # post) ops' = paint_elements e d (pre @ post) ops'"
        by (induction pre arbitrary: ops') (simp_all add: skip split: sum.splits)
      also have "\<dots> = Inr (ops' @ concat (map calls (pre @ post)))"
        using ok by (rule paint_elements_in_order)
      finally show ?thesis by simp
    qed
    have "\<exists>s. compose e (pre @ el # post) d bg = Inr s
           \<and> sf_ops s = DrawImage bg 0 0 (of_nat (sf_width s)) (of_nat (sf_height s))
                          # concat (map calls pre) @ concat (map calls post)"
      by (simp add: compose_def Let_def pass)
    with pass[of ops] show ?thesis by simp
  qed
  show ?thesis
    using skip loop comp server api rest by simp
qed

lemma solid_rect_paints:
  "paint_element e d (solid_rect x y w h radius colour) =
     Inr (paint_rectangle e d (solid_rect x y w h radius colour))"
  by (simp add: paint_element_def solid_rect_def blank_element_def)

theorem unknown_type_skipped_witness:
  "el_type (blank_element\<lparr>el_type := Some ''video''\<rparr>) \<noteq> Some ''image''
   \<and> el_type (blank_element\<lparr>el_type := Some ''video''\<rparr>) \<noteq> Some ''rectangle''
   \<and> el_type (blank_element\<lparr>el_type := Some ''video''\<rparr>) \<noteq> Some ''text''
   \<and> paint_element offline_env [] (blank_element\<lparr>el_type := Some ''video''\<rparr>) = Inr []
   \<and> paint_element offline_env [] (solid_rect 0 0 100 100 0 ''#FF0000'') =
       Inr (drawRoundedRect 0 0 100 100 0 @ [SetFillStyle ''#FF0000'', Fill])
   \<and> paint_element offline_env [] (solid_rect 10 10 50 50 5 ''#00FF00'') =
       Inr (drawRoundedRect 10 10 50 50 5 @ [SetFillStyle ''#00FF00'', Fill])
   \<and> paint_elements offline_env []
        [solid_rect 0 0 100 100 0 ''#FF0000'', blank_element\<lparr>el_type := Some ''video''\<rparr>,
         solid_rect 10 10 50 50 5 ''#00FF00''] [] =
       Inr (drawRoundedRect 0 0 100 100 0 @ [SetFillStyle ''#FF0000'', Fill]
            @ drawRoundedRect 10 10 50 50 5 @ [SetFillStyle ''#00FF00'', Fill])
   \<and> handler offline_env
        (Some \<lparr>background = None,
                elements = [solid_rect 0 0 100 100 0 ''#FF0000'',
                            blank_element\<lparr>el_type := Some ''video''\<rparr>,
                            solid_rect 10 10 50 50 5 ''#00FF00'']\<rparr>) [] =
      handler offline_env
        (Some \<lparr>background = None,
                elements = [solid_rect 0 0 100 100 0 ''#FF0000'',
                            solid_rect 10 10 50 50 5 ''#00FF00'']\<rparr>) []"
proof -
  let ?video = "blank_element\<lparr>el_type := Some ''video''\<rparr>"
  let ?red = "solid_rect 0 0 100 100 0 ''#FF0000''"
  let ?green = "solid_rect 10 10 50 50 5 ''#00FF00''"
  have v1: "el_type ?video \<noteq> Some ''image''" and v2: "el_type ?video \<noteq> Some ''rectangle''"
    and v3: "el_type ?video \<noteq> Some ''text''"
    by (simp_all add: blank_element_def)
  have red: "paint_element offline_env [] ?red =
      Inr (drawRoundedRect 0 0 100 100 0 @ [SetFillStyle ''#FF0000'', Fill])"
    by (simp add: paint_solid_rect red_literal)
  have green: "paint_element offline_env [] ?green =
      Inr (drawRoundedRect 10 10 50 50 5 @ [SetFillStyle ''#00FF00'', Fill])"
    by (simp add: paint_solid_rect green_literal)
  have pr: "paint_rectangle offline_env [] ?red =
      drawRoundedRect 0 0 100 100 0 @ [SetFillStyle ''#FF0000'', Fill]"
    and pg: "paint_rectangle offline_env [] ?green =
      drawRoundedRect 10 10 50 50 5 @ [SetFillStyle ''#00FF00'', Fill]"
    using red green by (simp_all add: solid_rect_paints)
  note inst = unknown_type_skipped
      [OF v1 v2 v3, where e = offline_env and d = "[]" and pre = "[?red]" and post = "[?green]"
         and ops = "[]" and bg = default_canvas
         and t = "\<lparr>background = None, elements = []\<rparr>"
         and calls = "paint_rectangle offline_env []"]
  have all: "\<forall>x\<in>set ([?red] @ [?green]).
      paint_element offline_env [] x = Inr (paint_rectangle offline_env [] x)"
    by (simp add: solid_rect_paints)
  have pass: "paint_elements offline_env [] [?red, ?video, ?green] [] =
      Inr (drawRoundedRect 0 0 100 100 0 @ [SetFillStyle ''#FF0000'', Fill]
           @ drawRoundedRect 10 10 50 50 5 @ [SetFillStyle ''#00FF00'', Fill])"
    using inst[THEN conjunct2, THEN conjunct2, THEN conjunct2, THEN conjunct2, THEN conjunct2,
               THEN mp, OF all, THEN conjunct1]
    by (simp add: pr pg)
  have api: "handler offline_env
        (Some \<lparr>background = None, elements = [?red, ?video, ?green]\<rparr>) [] =
      handler offline_env (Some \<lparr>background = None, elements = [?red, ?green]\<rparr>) []"
    using inst[THEN conjunct2, THEN conjunct2, THEN conjunct2, THEN conjunct2, THEN conjunct1]
    by simp
  show ?thesis
    by (intro conjI) (rule v1 v2 v3 inst[THEN conjunct1] red green pass api)+
qed

section \<open>Placeholder resolution\<close>

lemma not_word_brace: "\<not> is_word (CHR ''}'')" "\<not> is_space (CHR ''}'')"
  by (simp_all add: is_word_def is_space_def)

lemma word_not_space: "is_word c \<Longrightarrow> \<not> is_space c"
  by (auto simp: is_word_def is_space_def Let_def)

text \<open>
  A well-formed token matches at its first brace, with its identifier as the key; text
  without an opening brace is copied; so every well-formed token that follows brace-free
  text is replaced by what the replacer gives for its key, and the scan goes on behind
  it.
\<close>

lemma match_token_well_formed:
  assumes "\<forall>c\<in>set ws1. is_space c" and "\<forall>c\<in>set ws2. is_space c"
    and "key \<noteq> []" and "\<forall>c\<in>set key. is_word c"
  shows "match_token (CHR ''{'' # CHR ''{'' # ws1 @ key @ ws2 @ CHR ''}'' # CHR ''}'' # rest) = Some (key, rest)"
proof -
  obtain k ks where key: "key = k # ks" using assms(3) by (cases key) auto
  have k: "\<not> is_space k" using assms(4) key by (simp add: word_not_space)
  have d1: "dropWhile is_space (ws1 @ key @ ws2 @ CHR ''}'' # CHR ''}'' # rest) = key @ ws2 @ CHR ''}'' # CHR ''}'' # rest"
    using assms(1) k key by (simp add: dropWhile_append3)
  have nw: "\<not> is_word c" if "is_space c" for c
    using that word_not_space by blast
  have t: "takeWhile is_word (key @ ws2 @ CHR ''}'' # CHR ''}'' # rest) = key"
  proof (cases ws2)
    case Nil
    then show ?thesis using assms(4) not_word_brace by (simp add: takeWhile_append2)
  next
    case (Cons a as)
    then have "\<not> is_word a" using assms(2) nw by simp
    with Cons show ?thesis using assms(4) by (simp add: takeWhile_append2)
  qed
  have d2: "dropWhile is_word (key @ ws2 @ CHR ''}'' # CHR ''}'' # rest) = ws2 @ CHR ''}'' # CHR ''}'' # rest"
  proof (cases ws2)
    case Nil
    then show ?thesis using assms(4) not_word_brace by (simp add: dropWhile_append2)
  next
    case (Cons a as)
    then have "\<not> is_word a" using assms(2) nw by simp
    with Cons show ?thesis using assms(4) by (simp add: dropWhile_append2)
  qed
  have d3: "dropWhile is_space (ws2 @ CHR ''}'' # CHR ''}'' # rest) = CHR ''}'' # CHR ''}'' # rest"
    using assms(2) not_word_brace by (simp add: dropWhile_append2)
  show ?thesis
    using assms(3) by (simp add: d1 t d2 d3 Let_def)
qed

lemma match_token_not_brace: "CHR ''{'' \<noteq> c \<Longrightarrow> match_token (c # cs) = None"
  by (cases cs) auto

lemma replace_tokens_plain:
  "CHR ''{'' \<notin> set s \<Longrightarrow> replace_tokens f (s @ t) = s @ replace_tokens f t"
  by (induction s) (simp_all add: match_token_not_brace)

lemma replace_tokens_no_brace: "CHR ''{'' \<notin> set s \<Longrightarrow> replace_tokens f s = s"
  using replace_tokens_plain[of s f "[]"] by simp

lemma replace_tokens_token:
  assumes "CHR ''{'' \<notin> set pre"
    and "\<forall>c\<in>set ws1. is_space c" and "\<forall>c\<in>set ws2. is_space c"
    and "key \<noteq> []" and "\<forall>c\<in>set key. is_word c"
  shows "replace_tokens f (pre @ ''{{'' @ ws1 @ key @ ws2 @ CHR ''}'' # CHR ''}'' # rest) =
           pre @ f key @ replace_tokens f rest"
proof -
  have "replace_tokens f (CHR ''{'' # CHR ''{'' # ws1 @ key @ ws2 @ CHR ''}'' # CHR ''}'' # rest) = f key @ replace_tokens f rest"
    using match_token_well_formed[OF assms(2-5), of rest] by simp
  with assms(1) show ?thesis
    by (simp add: replace_tokens_plain)
qed

text \<open>
  What the replacer gives: the string form of an own value (empty for \<^verbatim>\<open>null\<close>),
  the empty string for a key found neither in the data nor on the prototype, and the
  string form of the inherited member for a key the data lacks but
  \<^verbatim>\<open>Object.prototype\<close> has.
\<close>

lemma replacer_own:
  "map_of d key = Some v \<Longrightarrow>
   replacer nts d key = (if v = SNull then [] else scalar_toString nts v)"
  by (cases v) (simp_all add: replacer_def get_property_def)

lemma replacer_absent:
  "map_of d key = None \<Longrightarrow> map_of Object_prototype key = None \<Longrightarrow> replacer nts d key = []"
  by (simp add: replacer_def get_property_def)

lemma replacer_inherited:
  "map_of d key = None \<Longrightarrow> map_of Object_prototype key = Some s \<Longrightarrow> replacer nts d key = s"
  by (simp add: replacer_def get_property_def)

text \<open>
  C2. For the template string \<open>{{constructor}}\<close> and an empty data object, the key is
  absent from the data, yet the result is not the empty string: the read falls through
  to \<^verbatim>\<open>Object.prototype.constructor\<close>, and the token is replaced by the source text
  of a native function. A key that is on neither, \<open>{{missing}}\<close>, gives the empty
  string.
\<close>

theorem resolvePlaceholders_inherited_key:
  "resolvePlaceholders nts (JStr ''{{constructor}}'') [] =
     JStr ''function Object() { [native code] }''
   \<and> resolvePlaceholders nts (JStr ''{{missing}}'') [] = JStr ''''"
  by (simp add: resolveString_def replacer_def get_property_def Object_prototype_def
        native_function_def is_space_def is_word_def)

end
